theory Spec2Isabelle
  imports Main "HOL-Library.Sublist"
begin

section \<open>JavaScript values\<close>

text \<open>
  The payloads that travel through \<^verbatim>\<open>SocketIO.emit\<close> and \<^verbatim>\<open>SocketIO.raw\<close> are arbitrary
  JavaScript values. Numbers are kept as integers with \<^verbatim>\<open>NaN\<close> apart (\<^verbatim>\<open>-0\<close> falls together
  with \<^verbatim>\<open>0\<close>; both are falsy), functions are opaque and carry a label only, objects are
  lists of own enumerable properties in property order.
\<close>

datatype jsval =
    JUndefined
  | JNull
  | JBool bool
  | JNum int
  | JNaN
  | JBigInt int
  | JStr string
  | JFunction string
  | JArr "jsval list"
  | JObj "(string \<times> jsval) list"

text \<open>\<^verbatim>\<open>ToBoolean\<close>, the test behind \<^verbatim>\<open>!rawData\<close> and \<^verbatim>\<open>rooms && rooms.length\<close>.\<close>

fun truthy :: "jsval \<Rightarrow> bool" where
  "truthy JUndefined = False"
| "truthy JNull = False"
| "truthy (JBool b) = b"
| "truthy (JNum n) = (n \<noteq> 0)"
| "truthy JNaN = False"
| "truthy (JBigInt n) = (n \<noteq> 0)"
| "truthy (JStr s) = (s \<noteq> [])"
| "truthy (JFunction f) = True"
| "truthy (JArr xs) = True"
| "truthy (JObj ps) = True"

definition digit :: "nat \<Rightarrow> char" where
  "digit n = ''0123456789'' ! (n mod 10)"

text \<open>The decimal property key of an array index.\<close>

fun index_key :: "nat \<Rightarrow> string" where
  "index_key n = (if n < 10 then [digit n] else index_key (n div 10) @ [digit (n mod 10)])"

declare index_key.simps [simp del]

text \<open>
  Object spread \<^verbatim>\<open>{ ...data }\<close>: a new object holding the own enumerable properties of
  \<^verbatim>\<open>data\<close>. An array contributes its elements under their indices, a string its
  characters, every other primitive (and a function) nothing.
\<close>

fun spread :: "jsval \<Rightarrow> jsval" where
  "spread (JObj ps) = JObj ps"
| "spread (JArr xs) = JObj (zip (map index_key [0..<length xs]) xs)"
| "spread (JStr s) = JObj (zip (map index_key [0..<length s]) (map (\<lambda>c. JStr [c]) s))"
| "spread v = JObj []"

text \<open>
  \<^verbatim>\<open>String.prototype.replace(pattern, replacement)\<close> with a string pattern: only the first
  occurrence of the pattern is replaced. (The replacement \<^verbatim>\<open>'-'\<close> used by the program has
  no \<^verbatim>\<open>$\<close> pattern, so it is inserted as it is.)
\<close>

fun replace :: "string \<Rightarrow> string \<Rightarrow> string \<Rightarrow> string" where
  "replace pat rep [] = (if pat = [] then rep else [])"
| "replace pat rep (c # cs) =
     (if prefix pat (c # cs) then rep @ drop (length pat) (c # cs)
      else c # replace pat rep cs)"

section \<open>Data model of the broadcaster\<close>

datatype exn = Exn string

text \<open>
  Modelled from the spec: \<^verbatim>\<open>API_TOKEN_TYPE\<close> is declared in \<^verbatim>\<open>../utils/constants\<close>, which
  is not among the sources. The specification gives a room's type as the enumeration
  \<^verbatim>\<open>{FULL_ACCESS, SCOPED}\<close>; \<^verbatim>\<open>SCOPED\<close> stands for every value other than
  \<^verbatim>\<open>API_TOKEN_TYPE.FULL_ACCESS\<close>.
\<close>

datatype token_type = FULL_ACCESS | SCOPED

record schema =
  singularName :: string
  uid :: string

text \<open>A permission entry of a room: its \<^verbatim>\<open>action\<close> and whatever other fields it carries.\<close>

record permission =
  action :: string
  extra :: "(string \<times> jsval) list"

record room =
  room_id :: string
  type :: token_type
  permissions :: "permission list"

text \<open>
  A subscription strategy. \<^verbatim>\<open>getRooms()\<close> takes no argument, so the strategy carries its
  result: the rooms, or the exception it throws. \<^verbatim>\<open>credentials\<close> is optional.
\<close>

record strategy =
  name :: string
  getRooms :: "exn + room list"
  getRoomName :: "room \<Rightarrow> string"
  verify :: jsval
  credentials :: "(room \<Rightarrow> jsval) option"

text \<open>The \<^verbatim>\<open>auth\<close> object handed to the sanitize service.\<close>

record 'ab auth =
  auth_name :: string
  ability :: 'ab
  strategy_verify :: jsval
  auth_credentials :: jsval

text \<open>
  The calls the broadcaster makes on its collaborators, in the order it makes them.
  \<^verbatim>\<open>SocketEmit rooms event payload\<close> is \<^verbatim>\<open>emit(event, payload)\<close> on the socket server
  after \<^verbatim>\<open>to(r)\<close> for each \<^verbatim>\<open>r\<close> of \<^verbatim>\<open>rooms\<close>, in that order.
\<close>

datatype 'ab call =
    GetRooms string
  | GenerateAbility "permission list"
  | Can 'ab string
  | SanitizeOutput jsval schema "'ab auth"
  | TransformResponse jsval schema
  | SocketEmit "string list" string jsval

text \<open>
  The collaborators: the strategy service (its own properties, in \<^verbatim>\<open>for...in\<close> order),
  the permission engine, the sanitize and transform services and the socket server. Each
  call that can throw returns the exception as a value.
\<close>

record 'ab services =
  strategyService :: "(string \<times> strategy) list"
  generateAbility :: "permission list \<Rightarrow> exn + 'ab"
  can :: "'ab \<Rightarrow> string \<Rightarrow> bool"
  sanitize_output :: "jsval \<Rightarrow> schema \<Rightarrow> 'ab auth \<Rightarrow> exn + jsval"
  transform_response :: "jsval \<Rightarrow> schema \<Rightarrow> exn + jsval"
  socket_emit :: "string list \<Rightarrow> string \<Rightarrow> jsval \<Rightarrow> exn + unit"

section \<open>Computations with a call log\<close>

text \<open>
  A computation returns its value or the exception it throws, with the calls it made.
  \<open>andThen\<close> is sequencing: an exception ends the computation, keeping the calls made
  so far, as a \<^verbatim>\<open>throw\<close> (or a rejected \<^verbatim>\<open>await\<close>) does where no \<^verbatim>\<open>try\<close> encloses it.
\<close>

type_synonym ('a, 'c) io = "(exn + 'a) \<times> 'c list"

definition ret :: "'a \<Rightarrow> ('a, 'c) io" where
  "ret x = (Inr x, [])"

definition perform :: "'c \<Rightarrow> exn + 'a \<Rightarrow> ('a, 'c) io" where
  "perform c r = (r, [c])"

definition andThen :: "('a, 'c) io \<Rightarrow> ('a \<Rightarrow> ('b, 'c) io) \<Rightarrow> ('b, 'c) io" where
  "andThen m f =
     (case m of
        (Inl e, tr) \<Rightarrow> (Inl e, tr)
      | (Inr x, tr) \<Rightarrow> (case f x of (r, tr') \<Rightarrow> (r, tr @ tr')))"

section \<open>\<^verbatim>\<open>SocketIO.emit\<close>\<close>

text \<open>\<^verbatim>\<open>room.permissions.map(({ action }) => ({ action }))\<close>, one entry.\<close>

definition project :: "permission \<Rightarrow> permission" where
  "project p = \<lparr>action = action p, extra = []\<rparr>"

definition auth_context :: "strategy \<Rightarrow> 'ab \<Rightarrow> room \<Rightarrow> 'ab auth" where
  "auth_context st ab r =
     \<lparr>auth_name = name st, ability = ab, strategy_verify = verify st,
      auth_credentials = (case credentials st of None \<Rightarrow> JUndefined | Some f \<Rightarrow> f r)\<rparr>"

text \<open>
  The condition \<^verbatim>\<open>room.type === API_TOKEN_TYPE.FULL_ACCESS || ability.can(...)\<close>: the right
  operand is evaluated, and \<^verbatim>\<open>can\<close> called, only when the left one is false.
\<close>

definition gate :: "'ab services \<Rightarrow> 'ab \<Rightarrow> room \<Rightarrow> string \<Rightarrow> (bool, 'ab call) io" where
  "gate sv ab r key =
     (if type r = FULL_ACCESS then ret True
      else perform (Can ab key) (Inr (can sv ab key)))"

text \<open>The body of the loop over the rooms of one strategy (lines 111 to 137).\<close>

definition process_room ::
  "'ab services \<Rightarrow> strategy \<Rightarrow> schema \<Rightarrow> string \<Rightarrow> jsval \<Rightarrow> room \<Rightarrow> (unit, 'ab call) io" where
  "process_room sv st sch event rawData r =
     (let eventName = singularName sch @ '':'' @ event;
          perms = map project (permissions r)
      in andThen (perform (GenerateAbility perms) (generateAbility sv perms)) (\<lambda>ab.
         andThen (gate sv ab r (uid sch @ ''.'' @ event)) (\<lambda>admitted.
           if admitted then
             (let au = auth_context st ab r
              in andThen (perform (SanitizeOutput rawData sch au)
                            (sanitize_output sv rawData sch au)) (\<lambda>sanitizedData.
                 let roomName = getRoomName st r
                 in andThen (perform (TransformResponse sanitizedData sch)
                               (transform_response sv sanitizedData sch)) (\<lambda>data.
                    let target = [replace '' '' ''-'' roomName];
                        payload = spread data
                    in perform (SocketEmit target eventName payload)
                         (socket_emit sv target eventName payload))))
           else ret ())))"

fun process_rooms ::
  "'ab services \<Rightarrow> strategy \<Rightarrow> schema \<Rightarrow> string \<Rightarrow> jsval \<Rightarrow> room list \<Rightarrow> (unit, 'ab call) io" where
  "process_rooms sv st sch event rawData [] = ret ()"
| "process_rooms sv st sch event rawData (r # rs) =
     andThen (process_room sv st sch event rawData r)
       (\<lambda>_. process_rooms sv st sch event rawData rs)"

text \<open>The loop over the own properties of the strategy service (lines 104 to 140).\<close>

fun process_strategies ::
  "'ab services \<Rightarrow> schema \<Rightarrow> string \<Rightarrow> jsval \<Rightarrow> (string \<times> strategy) list \<Rightarrow> (unit, 'ab call) io" where
  "process_strategies sv sch event rawData [] = ret ()"
| "process_strategies sv sch event rawData ((strategyType, st) # ss) =
     andThen (andThen (perform (GetRooms strategyType) (getRooms st))
                (\<lambda>rooms. process_rooms sv st sch event rawData rooms))
       (\<lambda>_. process_strategies sv sch event rawData ss)"

text \<open>
  \<^verbatim>\<open>async emit({ event, schema, data: rawData })\<close>. \<open>Inl e\<close> is the returned promise
  rejecting with \<open>e\<close>, \<open>Inr ()\<close> its fulfilment. The three services looked up on lines
  93 to 95 are the fields of \<open>sv\<close>; the wire event name of line 102 does not change in
  the loops and is computed where it is used.
\<close>

definition emit :: "'ab services \<Rightarrow> string \<Rightarrow> schema \<Rightarrow> jsval \<Rightarrow> (unit, 'ab call) io" where
  "emit sv event sch rawData =
     (if \<not> truthy rawData then ret ()
      else process_strategies sv sch event rawData (strategyService sv))"

section \<open>\<^verbatim>\<open>SocketIO.raw\<close>\<close>

text \<open>
  The emitter is the socket server with the rooms chained onto it so far; \<^verbatim>\<open>to(r)\<close> adds
  one. \<open>rooms = None\<close> is an absent (\<^verbatim>\<open>undefined\<close> or \<^verbatim>\<open>null\<close>) argument.
\<close>

definition to :: "string list \<Rightarrow> string \<Rightarrow> string list" where
  "to emitter r = emitter @ [r]"

definition raw :: "'ab services \<Rightarrow> string \<Rightarrow> jsval \<Rightarrow> string list option \<Rightarrow> (unit, 'ab call) io" where
  "raw sv event data rooms =
     (let emitter =
        (case rooms of
           None \<Rightarrow> []
         | Some rs \<Rightarrow> if length rs \<noteq> 0 then foldl to [] rs else [])
      in perform (SocketEmit emitter event (JObj [(''data'', data)]))
           (socket_emit sv emitter event (JObj [(''data'', data)])))"

section \<open>Who a chained emitter reaches\<close>

text \<open>
  The transport library (socket.io) is not among the sources; what follows is its
  documented behaviour. Each \<^verbatim>\<open>to(r)\<close> adds \<^verbatim>\<open>r\<close> to the rooms of the emitter. An
  emitter with no room reaches every connected socket; an emitter with rooms reaches
  every socket that has joined at least one of them, once.
\<close>

record client =
  socket_id :: string
  joined :: "string list"

definition reaches :: "string list \<Rightarrow> client \<Rightarrow> bool" where
  "reaches emitter c = (emitter = [] \<or> list_ex (\<lambda>r. r \<in> set (joined c)) emitter)"

text \<open>The reading of the specification: a socket that has joined every room of the emitter.\<close>

definition joined_all :: "string list \<Rightarrow> client \<Rightarrow> bool" where
  "joined_all emitter c = list_all (\<lambda>r. r \<in> set (joined c)) emitter"

section \<open>Reading a call log\<close>

text \<open>
  The emissions, the capability checks, the permission sets an ability was generated from
  and the abilities handed to the sanitize service, each in call order.
\<close>

fun emissions :: "'ab call list \<Rightarrow> (string list \<times> string \<times> jsval) list" where
  "emissions [] = []"
| "emissions (SocketEmit target eventName payload # tr) =
     (target, eventName, payload) # emissions tr"
| "emissions (c # tr) = emissions tr"

fun capability_checks :: "'ab call list \<Rightarrow> ('ab \<times> string) list" where
  "capability_checks [] = []"
| "capability_checks (Can ab key # tr) = (ab, key) # capability_checks tr"
| "capability_checks (c # tr) = capability_checks tr"

fun abilities_generated :: "'ab call list \<Rightarrow> permission list list" where
  "abilities_generated [] = []"
| "abilities_generated (GenerateAbility perms # tr) = perms # abilities_generated tr"
| "abilities_generated (c # tr) = abilities_generated tr"

fun abilities_sanitized :: "'ab call list \<Rightarrow> 'ab list" where
  "abilities_sanitized [] = []"
| "abilities_sanitized (SanitizeOutput d sch au # tr) = ability au # abilities_sanitized tr"
| "abilities_sanitized (c # tr) = abilities_sanitized tr"

text \<open>The rooms a broadcast meets: those of every strategy whose \<^verbatim>\<open>getRooms()\<close> returns.\<close>

definition rooms_of :: "strategy \<Rightarrow> room list" where
  "rooms_of st = (case getRooms st of Inl e \<Rightarrow> [] | Inr rs \<Rightarrow> rs)"

definition all_rooms :: "'ab services \<Rightarrow> room list" where
  "all_rooms sv = concat (map (\<lambda>(strategyType, st). rooms_of st) (strategyService sv))"

section \<open>The transport adapter\<close>

text \<open>
  What \<^verbatim>\<open>this._socket.adapter(...)\<close> was last given: nothing (the server keeps its built-in
  in-memory adapter), \<^verbatim>\<open>createAdapter(pubClient, subClient)\<close> of the Redis adapter package,
  \<^verbatim>\<open>createAdapter()\<close> of the same package with no clients (line 87), or \<^verbatim>\<open>createAdapter()\<close>
  of the cluster adapter package.
\<close>

datatype adapter = InMemory | Redis | RedisNoClients | Cluster

datatype level = Info | Warn | Error

record server =
  installed :: adapter
  logged :: "(level \<times> string) list"

datatype promise = Fulfilled | Rejected exn | Pending

text \<open>
  The outcome of each call the selector makes outside the class. \<^verbatim>\<open>connect()\<close> returns a
  promise; every other call returns or throws. \<^verbatim>\<open>createAdapter\<close> is the function imported
  on line 4; its argument says whether the two clients are passed.
\<close>

record deps =
  require_redis :: "exn + unit"
  createClient :: "exn + unit"
  duplicate :: "exn + unit"
  pubClient_on :: "exn + unit"
  subClient_on :: "exn + unit"
  pubClient_connect :: promise
  subClient_connect :: promise
  createAdapter :: "bool \<Rightarrow> exn + unit"
  socket_adapter :: "adapter \<Rightarrow> exn + unit"
  require_cluster :: "exn + unit"
  cluster_createAdapter :: "exn + unit"

definition log_line :: "level \<Rightarrow> string \<Rightarrow> server \<Rightarrow> server" where
  "log_line lvl msg s = s\<lparr>logged := logged s @ [(lvl, msg)]\<rparr>"

text \<open>\<^verbatim>\<open>this._socket.adapter(a)\<close>: the adapter is in place once the call has returned.\<close>

definition install :: "deps \<Rightarrow> adapter \<Rightarrow> server \<Rightarrow> (exn + unit) \<times> server" where
  "install d a s =
     (case socket_adapter d a of
        Inl e \<Rightarrow> (Inl e, s)
      | Inr u \<Rightarrow> (Inr (), s\<lparr>installed := a\<rparr>))"

definition fallbackToLocalAdapter :: "deps \<Rightarrow> server \<Rightarrow> (exn + unit) \<times> server" where
  "fallbackToLocalAdapter d s =
     (let s1 = log_line Warn ''Socket.IO: Falling back to local adapter'' s
      in case createAdapter d False of
           Inl e \<Rightarrow> (Inl e, s1)
         | Inr u \<Rightarrow> install d RedisNoClients s1)"

text \<open>Statements run one after the other: the first that throws ends the block.\<close>

fun first_throw :: "(exn + unit) list \<Rightarrow> exn + unit" where
  "first_throw [] = Inr ()"
| "first_throw (Inl e # rs) = Inl e"
| "first_throw (Inr u # rs) = first_throw rs"

text \<open>The synchronous statements of the \<^verbatim>\<open>try\<close> block, lines 41 to 54.\<close>

definition redis_clients :: "deps \<Rightarrow> exn + unit" where
  "redis_clients d =
     first_throw [require_redis d, createClient d, duplicate d, pubClient_on d, subClient_on d]"

text \<open>\<^verbatim>\<open>Promise.all\<close> of two promises.\<close>

definition promise_all :: "promise \<Rightarrow> promise \<Rightarrow> promise" where
  "promise_all p q =
     (case p of
        Rejected e \<Rightarrow> Rejected e
      | Fulfilled \<Rightarrow> q
      | Pending \<Rightarrow> (case q of Rejected e \<Rightarrow> Rejected e | Fulfilled \<Rightarrow> Pending | Pending \<Rightarrow> Pending))"

definition settle :: "(exn + unit) \<times> server \<Rightarrow> promise \<times> server" where
  "settle rs = (case rs of (Inl e, s) \<Rightarrow> (Rejected e, s) | (Inr u, s) \<Rightarrow> (Fulfilled, s))"

text \<open>The \<^verbatim>\<open>then\<close> callback, lines 57 to 61.\<close>

definition on_connected :: "deps \<Rightarrow> server \<Rightarrow> (exn + unit) \<times> server" where
  "on_connected d s =
     (case createAdapter d True of
        Inl e \<Rightarrow> (Inl e, s)
      | Inr u \<Rightarrow>
          (case install d Redis s of
             (Inl e, s') \<Rightarrow> (Inl e, s')
           | (Inr u, s') \<Rightarrow> (Inr (), log_line Info ''Socket.IO: Redis adapter connected'' s')))"

text \<open>The \<^verbatim>\<open>catch\<close> callback, lines 62 to 65.\<close>

definition on_connect_failed :: "deps \<Rightarrow> server \<Rightarrow> (exn + unit) \<times> server" where
  "on_connect_failed d s =
     fallbackToLocalAdapter d (log_line Error ''Socket.IO: Redis connection failed'' s)"

text \<open>
  The promise \<^verbatim>\<open>Promise.all([...]).then(...).catch(...)\<close> with the server as its callbacks
  leave it. Nothing awaits or handles that promise: where it is \<open>Rejected\<close>, the rejection is
  unhandled.
\<close>

definition connect_chain :: "deps \<Rightarrow> server \<Rightarrow> promise \<times> server" where
  "connect_chain d s =
     (case promise_all (pubClient_connect d) (subClient_connect d) of
        Pending \<Rightarrow> (Pending, s)
      | Rejected e \<Rightarrow> settle (on_connect_failed d s)
      | Fulfilled \<Rightarrow>
          (case on_connected d s of
             (Inl e, s') \<Rightarrow> settle (on_connect_failed d s')
           | (Inr u, s') \<Rightarrow> (Fulfilled, s')))"

text \<open>
  \<^verbatim>\<open>_setupRedisAdapter\<close>: what the call itself returns or throws, the promise chain it
  started (if it got that far), and the server once that chain has run.
\<close>

definition setupRedisAdapter :: "deps \<Rightarrow> server \<Rightarrow> (exn + unit) \<times> promise option \<times> server" where
  "setupRedisAdapter d s =
     (case redis_clients d of
        Inl e \<Rightarrow>
          (case fallbackToLocalAdapter d
                  (log_line Error ''Socket.IO: Redis dependencies missing'' s) of
             (r, s') \<Rightarrow> (r, None, s'))
      | Inr u \<Rightarrow> (case connect_chain d s of (p, s') \<Rightarrow> (Inr (), Some p, s')))"

text \<open>The \<^verbatim>\<open>try\<close> block of \<^verbatim>\<open>_setupDevelopmentAdapter\<close>, lines 75 to 77.\<close>

definition cluster_adapter :: "deps \<Rightarrow> server \<Rightarrow> (exn + unit) \<times> server" where
  "cluster_adapter d s =
     (case first_throw [require_cluster d, cluster_createAdapter d] of
        Inl e \<Rightarrow> (Inl e, s)
      | Inr u \<Rightarrow>
          (case install d Cluster s of
             (Inl e, s') \<Rightarrow> (Inl e, s')
           | (Inr u, s') \<Rightarrow>
               (Inr (), log_line Info ''Socket.IO: Using development cluster adapter'' s')))"

definition setupDevelopmentAdapter :: "deps \<Rightarrow> server \<Rightarrow> (exn + unit) \<times> server" where
  "setupDevelopmentAdapter d s =
     (case cluster_adapter d s of
        (Inl e, s') \<Rightarrow> (Inr (), log_line Warn ''Socket.IO: Running without cluster adapter'' s')
      | (Inr u, s') \<Rightarrow> (Inr (), s'))"

text \<open>
  The adapter setup of the constructor (lines 32 to 36); \<open>production\<close> is
  \<^verbatim>\<open>process.env.NODE_ENV === 'production'\<close>.
\<close>

definition setup_adapter :: "bool \<Rightarrow> deps \<Rightarrow> server \<Rightarrow> (exn + unit) \<times> promise option \<times> server" where
  "setup_adapter production d s =
     (if production then setupRedisAdapter d s
      else (case setupDevelopmentAdapter d s of (r, s') \<Rightarrow> (r, None, s')))"

definition new_server :: server where
  "new_server = \<lparr>installed = InMemory, logged = []\<rparr>"

section \<open>Sample collaborators\<close>

text \<open>
  Concrete collaborators on which the properties below are exercised. An ability is the
  list of the actions it grants.
\<close>

definition article :: schema where
  "article = \<lparr>singularName = ''article'', uid = ''api::article.article''\<rparr>"

definition admin_room :: room where
  "admin_room = \<lparr>room_id = ''1'', type = FULL_ACCESS, permissions = []\<rparr>"

definition reader_room :: room where
  "reader_room =
     \<lparr>room_id = ''2'', type = SCOPED,
      permissions = [\<lparr>action = ''api::article.article.find'', extra = [(''id'', JNum 7)]\<rparr>]\<rparr>"

definition editor_room :: room where
  "editor_room =
     \<lparr>room_id = ''3'', type = SCOPED,
      permissions = [\<lparr>action = ''api::article.article.update'', extra = [(''id'', JNum 9)]\<rparr>]\<rparr>"

definition token_strategy :: strategy where
  "token_strategy =
     \<lparr>name = ''io-token'', getRooms = Inr [admin_room, reader_room, editor_room],
      getRoomName = (\<lambda>r. ''io token '' @ room_id r),
      verify = JFunction ''verify'', credentials = Some (\<lambda>r. JStr (room_id r))\<rparr>"


definition sample_services :: "(string \<times> strategy) list \<Rightarrow> string list services" where
  "sample_services strategies =
     \<lparr>strategyService = strategies,
      generateAbility = (\<lambda>perms. Inr (map action perms)),
      can = (\<lambda>ab key. key \<in> set ab),
      sanitize_output = (\<lambda>d sch au. Inr d),
      transform_response = (\<lambda>d sch. Inr (JObj [(''data'', d)])),
      socket_emit = (\<lambda>target eventName payload. Inr ())\<rparr>"

definition entry :: jsval where
  "entry = JObj [(''id'', JNum 1), (''title'', JStr ''Hello'')]"

text \<open>
  The Redis client package is missing and the socket server throws when it is given the
  adapter made without clients.
\<close>

definition no_redis :: deps where
  "no_redis =
     \<lparr>require_redis = Inl (Exn ''Cannot find module redis''),
      createClient = Inr (), duplicate = Inr (), pubClient_on = Inr (), subClient_on = Inr (),
      pubClient_connect = Fulfilled, subClient_connect = Fulfilled,
      createAdapter = (\<lambda>clients. Inr ()),
      socket_adapter = (\<lambda>a. if a = RedisNoClients then Inl (Exn ''no clients'') else Inr ()),
      require_cluster = Inl (Exn ''Cannot find module @socket.io/cluster-adapter''),
      cluster_createAdapter = Inr ()\<rparr>"

text \<open>
  The Redis server refuses the connection, and the socket server throws when it is given
  the adapter made without clients.
\<close>

definition redis_refused :: deps where
  "redis_refused =
     \<lparr>require_redis = Inr (),
      createClient = Inr (), duplicate = Inr (), pubClient_on = Inr (), subClient_on = Inr (),
      pubClient_connect = Rejected (Exn ''ECONNREFUSED''), subClient_connect = Pending,
      createAdapter = (\<lambda>clients. Inr ()),
      socket_adapter = (\<lambda>a. if a = RedisNoClients then Inl (Exn ''no clients'') else Inr ()),
      require_cluster = Inl (Exn ''Cannot find module @socket.io/cluster-adapter''),
      cluster_createAdapter = Inr ()\<rparr>"


text \<open>The same collaborators with a transform service that returns \<^verbatim>\<open>null\<close>.\<close>

definition nil_services :: "(string \<times> strategy) list \<Rightarrow> string list services" where
  "nil_services strategies =
     (sample_services strategies)\<lparr>transform_response := (\<lambda>d sch. Inr JNull)\<rparr>"

text \<open>The same collaborators with a transform service that returns its argument.\<close>

definition plain_services :: "(string \<times> strategy) list \<Rightarrow> string list services" where
  "plain_services strategies =
     (sample_services strategies)\<lparr>transform_response := (\<lambda>d sch. Inr d)\<rparr>"

text \<open>A connected socket that has joined room \<^verbatim>\<open>a\<close> and no other.\<close>

definition socket_in_a :: client where
  "socket_in_a = \<lparr>socket_id = ''s1'', joined = [''a'']\<rparr>"

section \<open>Properties\<close>

subsection \<open>Sequencing and call logs\<close>

lemma andThen_Inl [simp]: "andThen (Inl e, tr) f = (Inl e, tr)"
  by (simp add: andThen_def)

lemma andThen_Inr [simp]: "andThen (Inr x, tr) f = (fst (f x), tr @ snd (f x))"
  by (simp add: andThen_def split: prod.splits)

lemma andThen_ret [simp]: "andThen (ret x) f = f x"
  by (simp add: ret_def)

lemma andThen_perform_Inl [simp]: "andThen (perform c (Inl e)) f = (Inl e, [c])"
  by (simp add: perform_def)

lemma andThen_perform_Inr [simp]: "andThen (perform c (Inr x)) f = (fst (f x), c # snd (f x))"
  by (simp add: perform_def)

text \<open>The result and the call log of one room, case by case.\<close>

lemma process_room_denied:
  assumes "generateAbility sv (map project (permissions r)) = Inr ab"
      and "type r \<noteq> FULL_ACCESS" and "\<not> can sv ab (uid sch @ ''.'' @ event)"
  shows "process_room sv st sch event rawData r =
           (Inr (), [GenerateAbility (map project (permissions r)), Can ab (uid sch @ ''.'' @ event)])"
  using assms by (simp add: process_room_def gate_def ret_def)

lemma process_room_admitted:
  assumes "generateAbility sv (map project (permissions r)) = Inr ab"
      and "type r = FULL_ACCESS \<or> can sv ab (uid sch @ ''.'' @ event)"
      and "sanitize_output sv rawData sch (auth_context st ab r) = Inr s"
      and "transform_response sv s sch = Inr d"
  shows "process_room sv st sch event rawData r =
           (socket_emit sv [replace '' '' ''-'' (getRoomName st r)] (singularName sch @ '':'' @ event) (spread d),
            GenerateAbility (map project (permissions r)) #
            (if type r = FULL_ACCESS then [] else [Can ab (uid sch @ ''.'' @ event)]) @
            [SanitizeOutput rawData sch (auth_context st ab r), TransformResponse s sch,
             SocketEmit [replace '' '' ''-'' (getRoomName st r)] (singularName sch @ '':'' @ event) (spread d)])"
  using assms by (auto simp add: process_room_def gate_def ret_def perform_def Let_def)


lemma emissions_append [simp]: "emissions (tr @ tr') = emissions tr @ emissions tr'"
  by (induction tr rule: emissions.induct) simp_all

lemma capability_checks_append [simp]:
  "capability_checks (tr @ tr') = capability_checks tr @ capability_checks tr'"
  by (induction tr rule: capability_checks.induct) simp_all

lemma abilities_generated_append [simp]:
  "abilities_generated (tr @ tr') = abilities_generated tr @ abilities_generated tr'"
  by (induction tr rule: abilities_generated.induct) simp_all

lemma abilities_sanitized_append [simp]:
  "abilities_sanitized (tr @ tr') = abilities_sanitized tr @ abilities_sanitized tr'"
  by (induction tr rule: abilities_sanitized.induct) simp_all

lemma process_room_no_ability:
  assumes "generateAbility sv (map project (permissions r)) = Inl e"
  shows "process_room sv st sch event rawData r =
           (Inl e, [GenerateAbility (map project (permissions r))])"
  using assms by (simp add: process_room_def)


lemma fst_andThen:
  "fst (andThen m f) = (case fst m of Inl e \<Rightarrow> Inl e | Inr x \<Rightarrow> fst (f x))"
  by (cases m) (auto simp add: andThen_def split: sum.splits prod.splits)

lemma snd_andThen:
  "snd (andThen m f) = (case fst m of Inl e \<Rightarrow> snd m | Inr x \<Rightarrow> snd m @ snd (f x))"
  by (cases m) (auto simp add: andThen_def split: sum.splits prod.splits)



lemma abilities_generated_room:
  "abilities_generated (snd (process_room sv st sch event rawData r)) =
     [map project (permissions r)]"
  by (simp add: process_room_def Let_def gate_def ret_def perform_def andThen_def
           split: sum.splits prod.splits)

lemma abilities_generated_rooms:
  "fst (process_rooms sv st sch event rawData rs) = Inr () \<Longrightarrow>
   abilities_generated (snd (process_rooms sv st sch event rawData rs)) =
     map (\<lambda>r. map project (permissions r)) rs"
  by (induction rs)
     (auto simp add: ret_def fst_andThen snd_andThen abilities_generated_room split: sum.splits)

lemma abilities_generated_strategies:
  "fst (process_strategies sv sch event rawData ss) = Inr () \<Longrightarrow>
   abilities_generated (snd (process_strategies sv sch event rawData ss)) =
     map (\<lambda>r. map project (permissions r)) (concat (map (\<lambda>(k, st). rooms_of st) ss))"
  by (induction ss)
     (auto simp add: ret_def perform_def rooms_of_def fst_andThen snd_andThen abilities_generated_rooms split: sum.splits)

lemma capability_checks_room:
  "generateAbility sv (map project (permissions r)) = Inr ab \<Longrightarrow>
   set (capability_checks (snd (process_room sv st sch event rawData r)))
     \<subseteq> {(ab, uid sch @ ''.'' @ event)}"
  by (simp add: process_room_def Let_def gate_def ret_def perform_def andThen_def
           split: sum.splits prod.splits)

lemma abilities_sanitized_room:
  "generateAbility sv (map project (permissions r)) = Inr ab \<Longrightarrow>
   set (abilities_sanitized (snd (process_room sv st sch event rawData r))) \<subseteq> {ab}"
  by (simp add: process_room_def Let_def gate_def ret_def perform_def andThen_def auth_context_def
           split: sum.splits prod.splits)

lemma emission_names_room:
  "\<forall>c \<in> set (emissions (snd (process_room sv st sch event rawData r))).
     c = ([replace '' '' ''-'' (getRoomName st r)], singularName sch @ '':'' @ event, snd (snd c))"
  by (simp add: process_room_def Let_def gate_def ret_def perform_def andThen_def
           split: sum.splits prod.splits)

lemma emission_names_rooms:
  "\<forall>c \<in> set (emissions (snd (process_rooms sv st sch event rawData rs))).
     fst (snd c) = singularName sch @ '':'' @ event"
proof (induction rs)
  case Nil
  then show ?case by (simp add: ret_def)
next
  case (Cons r rs)
  have "\<forall>c \<in> set (emissions (snd (process_room sv st sch event rawData r))).
     fst (snd c) = singularName sch @ '':'' @ event"
    using emission_names_room [of sv st sch event rawData r] by (metis fst_conv snd_conv)
  with Cons show ?case
    by (auto simp add: snd_andThen split: sum.splits)
qed

lemma emission_names_strategies:
  "\<forall>c \<in> set (emissions (snd (process_strategies sv sch event rawData ss))).
     fst (snd c) = singularName sch @ '':'' @ event"
proof (induction ss)
  case Nil
  then show ?case by (simp add: ret_def)
next
  case (Cons a ss)
  obtain k st where a: "a = (k, st)" by (cases a)
  from Cons emission_names_rooms [of sv st sch event rawData] show ?case
    by (auto simp add: a snd_andThen perform_def split: sum.splits)
qed

lemma replace_no_space: "CHR '' '' \<notin> set nm \<Longrightarrow> replace '' '' ''-'' nm = nm"
  by (induction nm) auto

lemma replace_first_space:
  "CHR '' '' \<notin> set pre \<Longrightarrow>
   replace '' '' ''-'' (pre @ CHR '' '' # post) = pre @ CHR ''-'' # post"
  by (induction pre) auto

lemma foldl_to: "foldl to acc rs = acc @ rs"
  by (induction rs arbitrary: acc) (simp_all add: to_def)

lemma wrapped_differs: "JObj [(k, d)] \<noteq> d"
proof
  assume "JObj [(k, d)] = d"
  then have "size (JObj [(k, d)]) = size d" by simp
  then show False by simp
qed

lemma index_key_0: "index_key 0 = ''0''"
  by (simp add: index_key.simps digit_def)

lemma spread_fixed: "(spread d = d) = (\<exists>ps. d = JObj ps)"
  by (cases d) auto

lemma zip_single:
  "zip (map f [0..<length xs]) xs = [(k, v)] \<Longrightarrow> xs = [v] \<and> f 0 = k"
proof -
  assume eq: "zip (map f [0..<length xs]) xs = [(k, v)]"
  then have "length (zip (map f [0..<length xs]) xs) = 1" by simp
  then have "length xs = 1" by simp
  then obtain x where xs: "xs = [x]" by (cases xs) auto
  with eq show ?thesis by simp
qed

lemma wrapper_differs_from_spread: "JObj [(''data'', v)] \<noteq> spread v"
proof (cases v)
  case (JObj ps)
  then show ?thesis using wrapped_differs [of "''data''" v] by auto
next
  case (JArr xs)
  show ?thesis
  proof
    assume "JObj [(''data'', v)] = spread v"
    with JArr have "zip (map index_key [0..<length xs]) xs = [(''data'', v)]" by simp
    then have "index_key 0 = ''data''" by (rule zip_single [THEN conjunct2])
    then show False by (simp add: index_key_0)
  qed
next
  case (JStr s)
  show ?thesis
  proof
    assume "JObj [(''data'', v)] = spread v"
    with JStr have "zip (map index_key [0..<length (map (\<lambda>c. JStr [c]) s)]) (map (\<lambda>c. JStr [c]) s)
                      = [(''data'', v)]" by simp
    then have "index_key 0 = ''data''" by (rule zip_single [THEN conjunct2])
    then show False by (simp add: index_key_0)
  qed
qed simp_all

lemma index_key_1: "index_key (Suc 0) = ''1''"
  by (simp add: index_key.simps digit_def)

subsection \<open>The claims\<close>

text \<open>
  C3. An event whose raw payload is \<^verbatim>\<open>null\<close> or absent (\<^verbatim>\<open>undefined\<close>) is a no-op: the
  broadcast resolves having made no call at all, so no strategy is asked for its rooms, no
  ability is generated, nothing is sanitized or transformed and nothing is emitted.
\<close>

theorem emit_null_payload_noop:
  "emit sv event sch JNull = (Inr (), []) \<and> emit sv event sch JUndefined = (Inr (), [])"
  by (simp add: emit_def ret_def)

text \<open>
  C1. For a room whose ability \<open>ab\<close> was generated: when sanitizing and transforming return,
  an emission occurs for the room if and only if \<^verbatim>\<open>room.type\<close> is \<^verbatim>\<open>FULL_ACCESS\<close> or the
  ability grants \<^verbatim>\<open>schema.uid + "." + event\<close>; in every case an emission implies that
  condition. For a \<^verbatim>\<open>FULL_ACCESS\<close> room \<^verbatim>\<open>can\<close> is never called; for a scoped room whose
  ability denies the key, the ability is generated, \<^verbatim>\<open>can\<close> is asked once and nothing else
  happens: no sanitizing, no transforming, no emission.
\<close>

theorem gate_decides_emission:
  assumes "generateAbility sv (map project (permissions r)) = Inr ab"
  shows "(sanitize_output sv rawData sch (auth_context st ab r) = Inr s \<and>
          transform_response sv s sch = Inr d \<longrightarrow>
            (emissions (snd (process_room sv st sch event rawData r)) \<noteq> []) =
            (type r = FULL_ACCESS \<or> can sv ab (uid sch @ ''.'' @ event)))
       \<and> (emissions (snd (process_room sv st sch event rawData r)) \<noteq> [] \<longrightarrow>
            type r = FULL_ACCESS \<or> can sv ab (uid sch @ ''.'' @ event))
       \<and> (type r = FULL_ACCESS \<longrightarrow>
            capability_checks (snd (process_room sv st sch event rawData r)) = [])
       \<and> (type r = SCOPED \<and> \<not> can sv ab (uid sch @ ''.'' @ event) \<longrightarrow>
            process_room sv st sch event rawData r =
              (Inr (), [GenerateAbility (map project (permissions r)),
                        Can ab (uid sch @ ''.'' @ event)]))"
proof (cases "type r = FULL_ACCESS \<or> can sv ab (uid sch @ ''.'' @ event)")
  case True
  have full: "type r = FULL_ACCESS \<Longrightarrow>
      capability_checks (snd (process_room sv st sch event rawData r)) = []"
    using assms
    by (cases "sanitize_output sv rawData sch (auth_context st ab r)")
       (auto simp add: process_room_def gate_def Let_def ret_def perform_def andThen_def split: sum.splits prod.splits)
  from True assms full show ?thesis
    by (auto simp add: process_room_admitted)
next
  case False
  then have "type r = SCOPED" by (cases "type r") simp_all
  with False assms show ?thesis
    by (simp add: process_room_denied)
qed

theorem gate_decides_emission_witness:
  "emissions (snd (process_room (sample_services []) token_strategy article ''update'' entry
                     admin_room)) \<noteq> []
   \<and> capability_checks (snd (process_room (sample_services []) token_strategy article ''update''
                     entry admin_room)) = []
   \<and> process_room (sample_services []) token_strategy article ''update'' entry reader_room =
         (Inr (), [GenerateAbility [\<lparr>action = ''api::article.article.find'', extra = []\<rparr>],
                   Can [''api::article.article.find''] ''api::article.article.update''])"
proof -
  have a: "generateAbility (sample_services []) (map project (permissions admin_room)) = Inr []"
    by (simp add: sample_services_def admin_room_def)
  have b: "generateAbility (sample_services []) (map project (permissions reader_room))
             = Inr [''api::article.article.find'']"
    by (simp add: sample_services_def reader_room_def project_def)
  show ?thesis
    using gate_decides_emission [OF a, of entry article token_strategy entry
            "JObj [(''data'', entry)]" "''update''"]
          gate_decides_emission [OF b, of entry article token_strategy entry
            "JObj [(''data'', entry)]" "''update''"]
    by (simp add: sample_services_def admin_room_def reader_room_def article_def project_def)
qed




text \<open>
  C5. In the processing of every room an ability is generated exactly once, from the room's
  permissions projected to their \<^verbatim>\<open>action\<close> (every other field of an entry is dropped).
  That ability is the one \<^verbatim>\<open>can\<close> is asked on and the one handed to the sanitize service.
  A broadcast that resolves has generated one ability for each room it met, in the order
  of the rooms: no ability serves two rooms. \<^verbatim>\<open>emit\<close> keeps nothing from one call to the
  next, so none is reused across broadcasts either.
\<close>

theorem ability_generated_per_room:
  "abilities_generated (snd (process_room sv st sch event rawData r)) =
     [map project (permissions r)]
   \<and> (generateAbility sv (map project (permissions r)) = Inr ab \<longrightarrow>
        (\<forall>c \<in> set (capability_checks (snd (process_room sv st sch event rawData r))). fst c = ab)
      \<and> (\<forall>a \<in> set (abilities_sanitized (snd (process_room sv st sch event rawData r))). a = ab))
   \<and> (fst (emit sv event sch rawData) = Inr () \<and> truthy rawData \<longrightarrow>
        abilities_generated (snd (emit sv event sch rawData)) =
          map (\<lambda>r. map project (permissions r)) (all_rooms sv))
   \<and> action (project p) = action p \<and> extra (project p) = []"
proof -
  have a: "generateAbility sv (map project (permissions r)) = Inr ab \<Longrightarrow>
        (\<forall>c \<in> set (capability_checks (snd (process_room sv st sch event rawData r))). fst c = ab)"
    using capability_checks_room [of sv r ab st sch event rawData] by auto
  have b: "generateAbility sv (map project (permissions r)) = Inr ab \<Longrightarrow>
        (\<forall>a \<in> set (abilities_sanitized (snd (process_room sv st sch event rawData r))). a = ab)"
    using abilities_sanitized_room [of sv r ab st sch event rawData] by auto
  have c: "fst (emit sv event sch rawData) = Inr () \<and> truthy rawData \<Longrightarrow>
        abilities_generated (snd (emit sv event sch rawData)) =
          map (\<lambda>r. map project (permissions r)) (all_rooms sv)"
    by (auto simp add: emit_def all_rooms_def abilities_generated_strategies)
  from a b c show ?thesis
    by (simp add: abilities_generated_room project_def)
qed

theorem ability_generated_per_room_witness:
  "generateAbility (sample_services [(''token'', token_strategy)])
       (map project (permissions editor_room)) = Inr [''api::article.article.update'']
   \<and> capability_checks (snd (process_room (sample_services [(''token'', token_strategy)])
         token_strategy article ''update'' entry editor_room)) =
       [([''api::article.article.update''], ''api::article.article.update'')]
   \<and> abilities_sanitized (snd (process_room (sample_services [(''token'', token_strategy)])
         token_strategy article ''update'' entry editor_room)) =
       [[''api::article.article.update'']]
   \<and> fst (emit (sample_services [(''token'', token_strategy)]) ''update'' article entry) = Inr ()
   \<and> truthy entry
   \<and> abilities_generated
        (snd (emit (sample_services [(''token'', token_strategy)]) ''update'' article entry)) =
       [[], [\<lparr>action = ''api::article.article.find'', extra = []\<rparr>],
        [\<lparr>action = ''api::article.article.update'', extra = []\<rparr>]]"
  using ability_generated_per_room [of "sample_services [(''token'', token_strategy)]"
          token_strategy article "''update''" entry editor_room
          "[''api::article.article.update'']"]
  by (simp add: emit_def entry_def sample_services_def token_strategy_def perform_def
        process_room_def gate_def ret_def project_def admin_room_def reader_room_def
        editor_room_def article_def auth_context_def all_rooms_def rooms_of_def)

text \<open>
  C7. The room a broadcast emits to is the strategy's room name with its first space
  replaced by a hyphen: in a name with a space, what precedes the first space and what
  follows it (further spaces included) is unchanged; a name without a space is unchanged.
\<close>

theorem room_name_first_space_only:
  "(CHR '' '' \<notin> set pre \<longrightarrow>
      replace '' '' ''-'' (pre @ CHR '' '' # post) = pre @ CHR ''-'' # post)
   \<and> (CHR '' '' \<notin> set nm \<longrightarrow> replace '' '' ''-'' nm = nm)
   \<and> (\<forall>c \<in> set (emissions (snd (process_room sv st sch event rawData r))).
        fst c = [replace '' '' ''-'' (getRoomName st r)])"
proof -
  have "\<forall>c \<in> set (emissions (snd (process_room sv st sch event rawData r))).
        fst c = [replace '' '' ''-'' (getRoomName st r)]"
    using emission_names_room [of sv st sch event rawData r] by (metis fst_conv)
  then show ?thesis by (simp add: replace_no_space replace_first_space)
qed

theorem room_name_first_space_only_witness:
  "CHR '' '' \<notin> set ''io''
   \<and> replace '' '' ''-'' ''io token 1'' = ''io-token 1''
   \<and> CHR '' '' \<notin> set ''io-token''
   \<and> replace '' '' ''-'' ''io-token'' = ''io-token''
   \<and> map fst (emissions (snd (process_room (sample_services []) token_strategy article
         ''update'' entry admin_room))) = [[''io-token 1'']]"
  using room_name_first_space_only [of "''io''" "''token 1''" "''io-token''"
          "sample_services []" token_strategy article "''update''" entry admin_room]
  by (simp add: sample_services_def token_strategy_def perform_def
        process_room_def gate_def ret_def admin_room_def article_def auth_context_def)

text \<open>
  C9. The guard is a truthiness test: for every falsy raw payload the broadcast resolves
  having made no call at all. Falsy are not only \<^verbatim>\<open>null\<close> and \<^verbatim>\<open>undefined\<close> but also
  \<^verbatim>\<open>0\<close>, the empty string, \<^verbatim>\<open>false\<close> and \<^verbatim>\<open>NaN\<close>.
\<close>

theorem falsy_payload_noop:
  "(\<not> truthy rawData \<longrightarrow> emit sv event sch rawData = (Inr (), []))
   \<and> \<not> truthy JNull \<and> \<not> truthy JUndefined \<and> \<not> truthy (JNum 0) \<and> \<not> truthy (JStr [])
   \<and> \<not> truthy (JBool False) \<and> \<not> truthy JNaN"
  by (simp add: emit_def ret_def)

theorem falsy_payload_noop_witness:
  "\<not> truthy (JNum 0)
   \<and> emit (sample_services [(''token'', token_strategy)]) ''update'' article (JNum 0) = (Inr (), [])"
  using falsy_payload_noop [of "JNum 0" "sample_services [(''token'', token_strategy)]"
          "''update''" article]
  by simp

text \<open>
  C6, as the program has it. Every emission of a broadcast carries the wire event name
  \<^verbatim>\<open>schema.singularName + ":" + event\<close>. For an admitted room whose sanitize and transform
  calls return, the call log ends with the sanitize call on the raw payload, under the auth
  context made of the strategy's name, the room's ability, the strategy's \<^verbatim>\<open>verify\<close> and
  the room's credentials (\<^verbatim>\<open>undefined\<close> where the strategy has none), then the transform
  call on the sanitized payload, then the one emission of the room. The payload emitted is
  the copy \<^verbatim>\<open>{ ...d }\<close> of the transformed payload \<open>d\<close>: it equals \<open>d\<close> exactly when
  \<open>d\<close> is an object, and is for instance the empty object for \<^verbatim>\<open>null\<close> and an object
  keyed by the indices for an array.
\<close>

theorem wire_event_and_spread_payload:
  "(\<forall>c \<in> set (emissions (snd (emit sv event sch rawData))).
      fst (snd c) = singularName sch @ '':'' @ event)
   \<and> (generateAbility sv (map project (permissions r)) = Inr ab \<and>
      (type r = FULL_ACCESS \<or> can sv ab (uid sch @ ''.'' @ event)) \<and>
      sanitize_output sv rawData sch (auth_context st ab r) = Inr s \<and>
      transform_response sv s sch = Inr d \<longrightarrow>
        (\<exists>tr. snd (process_room sv st sch event rawData r) =
           tr @ [SanitizeOutput rawData sch (auth_context st ab r),
                 TransformResponse s sch,
                 SocketEmit [replace '' '' ''-'' (getRoomName st r)]
                   (singularName sch @ '':'' @ event) (spread d)]
           \<and> emissions tr = []))
   \<and> auth_context st ab r =
       \<lparr>auth_name = name st, ability = ab, strategy_verify = verify st,
        auth_credentials = (case credentials st of None \<Rightarrow> JUndefined | Some f \<Rightarrow> f r)\<rparr>
   \<and> (spread d = d) = (\<exists>ps. d = JObj ps)
   \<and> spread JNull = JObj [] \<and> spread JUndefined = JObj []
   \<and> spread (JArr [a, b]) = JObj [(''0'', a), (''1'', b)]"
proof -
  have a: "\<forall>c \<in> set (emissions (snd (emit sv event sch rawData))).
      fst (snd c) = singularName sch @ '':'' @ event"
    using emission_names_strategies [of sv sch event rawData "strategyService sv"]
    by (simp add: emit_def ret_def)
  have b: "generateAbility sv (map project (permissions r)) = Inr ab \<and>
      (type r = FULL_ACCESS \<or> can sv ab (uid sch @ ''.'' @ event)) \<and>
      sanitize_output sv rawData sch (auth_context st ab r) = Inr s \<and>
      transform_response sv s sch = Inr d \<Longrightarrow>
        (\<exists>tr. snd (process_room sv st sch event rawData r) =
           tr @ [SanitizeOutput rawData sch (auth_context st ab r),
                 TransformResponse s sch,
                 SocketEmit [replace '' '' ''-'' (getRoomName st r)]
                   (singularName sch @ '':'' @ event) (spread d)]
           \<and> emissions tr = [])"
    by (auto simp add: process_room_admitted)
  have c: "(spread d = d) = (\<exists>ps. d = JObj ps)" by (rule spread_fixed)
  from a b c show ?thesis
    by (simp add: auth_context_def index_key_0 index_key_1)
qed

text \<open>
  The claim as stated fails where the transform service returns something that is not an
  object: for \<^verbatim>\<open>null\<close> the room is sent the empty object.
\<close>

theorem payload_equality_counterexample:
  "transform_response (nil_services []) entry article = Inr JNull
   \<and> emissions (snd (process_room (nil_services []) token_strategy article ''update'' entry
        admin_room)) = [([''io-token 1''], ''article:update'', JObj [])]
   \<and> JObj [] \<noteq> JNull"
  by (simp add: nil_services_def sample_services_def token_strategy_def perform_def
        process_room_def gate_def ret_def admin_room_def article_def auth_context_def)

theorem wire_event_and_spread_payload_witness:
  "emissions (snd (emit (sample_services [(''token'', token_strategy)]) ''update'' article entry))
     = [([''io-token 1''], ''article:update'', JObj [(''data'', entry)]),
        ([''io-token 3''], ''article:update'', JObj [(''data'', entry)])]
   \<and> generateAbility (nil_services []) (map project (permissions admin_room)) = Inr []
   \<and> type admin_room = FULL_ACCESS
   \<and> sanitize_output (nil_services []) entry article
        (auth_context token_strategy [] admin_room) = Inr entry
   \<and> transform_response (nil_services []) entry article = Inr JNull
   \<and> snd (process_room (nil_services []) token_strategy article ''update'' entry admin_room) =
       [GenerateAbility [],
        SanitizeOutput entry article
          \<lparr>auth_name = ''io-token'', ability = [], strategy_verify = JFunction ''verify'',
           auth_credentials = JStr ''1''\<rparr>,
        TransformResponse entry article,
        SocketEmit [''io-token 1''] ''article:update'' (JObj [])]
   \<and> spread (JObj [(''data'', entry)]) = JObj [(''data'', entry)]"
  using wire_event_and_spread_payload [of "sample_services [(''token'', token_strategy)]"
          "''update''" article entry]
        wire_event_and_spread_payload [of "nil_services []" "''update''" article entry
          admin_room "[]" token_strategy entry JNull]
        wire_event_and_spread_payload [where d = "JObj [(''data'', entry)]"]
  by (simp add: emit_def entry_def nil_services_def sample_services_def token_strategy_def
        perform_def process_room_def gate_def ret_def project_def admin_room_def
        reader_room_def editor_room_def article_def auth_context_def)

text \<open>
  C8, as the program and its transport library have it. \<^verbatim>\<open>raw\<close> with absent or empty
  \<^verbatim>\<open>rooms\<close> emits on the socket server itself, which reaches every connected socket.
  With a non-empty \<^verbatim>\<open>rooms\<close> it emits on the emitter built by \<^verbatim>\<open>to(r)\<close> for each listed
  room in turn, which carries the listed rooms in their order and reaches every socket
  that has joined at least one of them: a union of the rooms.
\<close>

theorem raw_reaches_union:
  "raw sv event data None =
     (socket_emit sv [] event (JObj [(''data'', data)]),
      [SocketEmit [] event (JObj [(''data'', data)])])
   \<and> raw sv event data (Some []) =
     (socket_emit sv [] event (JObj [(''data'', data)]),
      [SocketEmit [] event (JObj [(''data'', data)])])
   \<and> raw sv event data (Some (r # rs)) =
     (socket_emit sv (foldl to [] (r # rs)) event (JObj [(''data'', data)]),
      [SocketEmit (foldl to [] (r # rs)) event (JObj [(''data'', data)])])
   \<and> foldl to [] (r # rs) = r # rs
   \<and> reaches [] c
   \<and> reaches (foldl to [] (r # rs)) c = (\<exists>x \<in> set (r # rs). x \<in> set (joined c))"
  by (simp add: raw_def perform_def foldl_to Let_def to_def reaches_def list_ex_iff)

text \<open>
  The claim as stated fails: an event sent by \<^verbatim>\<open>raw\<close> to the rooms \<^verbatim>\<open>a\<close> and \<^verbatim>\<open>b\<close>
  reaches a socket that has joined \<^verbatim>\<open>a\<close> only.
\<close>

theorem raw_intersection_counterexample:
  "snd (raw (sample_services []) ''notice'' entry (Some [''a'', ''b''])) =
     [SocketEmit [''a'', ''b''] ''notice'' (JObj [(''data'', entry)])]
   \<and> reaches [''a'', ''b''] socket_in_a
   \<and> \<not> joined_all [''a'', ''b''] socket_in_a"
  by (simp add: raw_def perform_def Let_def to_def reaches_def joined_all_def socket_in_a_def)

theorem raw_reaches_union_witness:
  "raw (sample_services []) ''notice'' entry (Some [''a'', ''b'']) =
     (Inr (), [SocketEmit [''a'', ''b''] ''notice'' (JObj [(''data'', entry)])])
   \<and> raw (sample_services []) ''notice'' entry None =
     (Inr (), [SocketEmit [] ''notice'' (JObj [(''data'', entry)])])
   \<and> reaches [''a'', ''b''] socket_in_a
   \<and> reaches [] socket_in_a
   \<and> \<not> reaches [''b'', ''c''] socket_in_a"
  using raw_reaches_union [of "sample_services []" "''notice''" entry "''a''" "[''b'']" socket_in_a]
        raw_reaches_union [of "sample_services []" "''notice''" entry "''b''" "[''c'']" socket_in_a]
  by (simp add: sample_services_def socket_in_a_def to_def)

text \<open>
  C10. \<^verbatim>\<open>raw\<close> emits the object \<^verbatim>\<open>{ data: data }\<close>, whatever the rooms: one property
  \<^verbatim>\<open>data\<close> holding the caller's value, which is never that value itself. \<^verbatim>\<open>emit\<close> emits
  \<^verbatim>\<open>{ ...d }\<close> for the transformed payload \<open>d\<close>, with no wrapper: the properties of an
  object, the elements of an array and the characters of a string under their indices,
  nothing for any other value. For one and the same value the two payloads always differ.
\<close>

theorem payload_shapes:
  "map (\<lambda>c. snd (snd c)) (emissions (snd (raw sv event data rooms))) = [JObj [(''data'', data)]]
   \<and> JObj [(''data'', data)] \<noteq> data
   \<and> (generateAbility sv (map project (permissions r)) = Inr ab \<and>
      (type r = FULL_ACCESS \<or> can sv ab (uid sch @ ''.'' @ ev)) \<and>
      sanitize_output sv rawData sch (auth_context st ab r) = Inr s \<and>
      transform_response sv s sch = Inr d \<longrightarrow>
        map (\<lambda>c. snd (snd c)) (emissions (snd (process_room sv st sch ev rawData r))) = [spread d])
   \<and> JObj [(''data'', d)] \<noteq> spread d
   \<and> spread (JObj ps) = JObj ps
   \<and> spread (JArr xs) = JObj (zip (map index_key [0..<length xs]) xs)
   \<and> spread (JStr cs) = JObj (zip (map index_key [0..<length cs]) (map (\<lambda>c. JStr [c]) cs))
   \<and> spread (JArr [a, b]) = JObj [(''0'', a), (''1'', b)]
   \<and> spread (JStr ''hi'') = JObj [(''0'', JStr ''h''), (''1'', JStr ''i'')]
   \<and> spread JNull = JObj [] \<and> spread JUndefined = JObj [] \<and> spread (JBool t) = JObj []
   \<and> spread (JNum n) = JObj [] \<and> spread JNaN = JObj [] \<and> spread (JBigInt n) = JObj []
   \<and> spread (JFunction f) = JObj []"
proof -
  have a: "map (\<lambda>c. snd (snd c)) (emissions (snd (raw sv event data rooms)))
             = [JObj [(''data'', data)]]"
    by (simp add: raw_def perform_def Let_def)
  have b: "generateAbility sv (map project (permissions r)) = Inr ab \<and>
      (type r = FULL_ACCESS \<or> can sv ab (uid sch @ ''.'' @ ev)) \<and>
      sanitize_output sv rawData sch (auth_context st ab r) = Inr s \<and>
      transform_response sv s sch = Inr d \<Longrightarrow>
        map (\<lambda>c. snd (snd c)) (emissions (snd (process_room sv st sch ev rawData r))) = [spread d]"
    by (auto simp add: process_room_admitted)
  from a b show ?thesis
    using wrapped_differs [of "''data''" data] wrapper_differs_from_spread [of d]
    by (simp add: index_key_0 index_key_1)
qed

theorem payload_shapes_witness:
  "map (\<lambda>c. snd (snd c))
      (emissions (snd (raw (plain_services []) ''notice'' entry (Some [''a b'', ''c'']))))
     = [JObj [(''data'', entry)]]
   \<and> generateAbility (plain_services []) (map project (permissions admin_room)) = Inr []
   \<and> type admin_room = FULL_ACCESS
   \<and> sanitize_output (plain_services []) entry article
        (auth_context token_strategy [] admin_room) = Inr entry
   \<and> transform_response (plain_services []) entry article = Inr entry
   \<and> map (\<lambda>c. snd (snd c))
      (emissions (snd (process_room (plain_services []) token_strategy article ''update'' entry
         admin_room))) = [entry]
   \<and> JObj [(''data'', entry)] \<noteq> entry"
  using payload_shapes [of "plain_services []" "''notice''" entry "Some [''a b'', ''c'']"
          admin_room "[]" article "''update''" entry token_strategy entry entry]
  by (simp add: plain_services_def sample_services_def admin_room_def entry_def)

text \<open>
  C4. The claim fails on the program where the fallback itself throws. With the Redis client
  package missing, the exception of \<^verbatim>\<open>this._socket.adapter(createAdapter())\<close> on line 87
  is raised inside the \<^verbatim>\<open>catch\<close> block: it leaves \<^verbatim>\<open>_setupRedisAdapter\<close>, and with it the
  constructor, and no adapter is installed. With the connection refused, the same
  exception is raised inside the \<^verbatim>\<open>catch\<close> callback and the promise chain, which nothing
  handles, rejects. On the same input the other path, \<^verbatim>\<open>_setupDevelopmentAdapter\<close>,
  returns normally with a warning logged.
\<close>

theorem fallback_throw_leaves_selector:
  "setupRedisAdapter no_redis new_server =
     (Inl (Exn ''no clients''), None,
      \<lparr>installed = InMemory,
       logged = [(Error, ''Socket.IO: Redis dependencies missing''),
                 (Warn, ''Socket.IO: Falling back to local adapter'')]\<rparr>)
   \<and> setupRedisAdapter redis_refused new_server =
     (Inr (), Some (Rejected (Exn ''no clients'')),
      \<lparr>installed = InMemory,
       logged = [(Error, ''Socket.IO: Redis connection failed''),
                 (Warn, ''Socket.IO: Falling back to local adapter'')]\<rparr>)
   \<and> setup_adapter True no_redis new_server = setupRedisAdapter no_redis new_server
   \<and> setup_adapter False no_redis new_server =
     (Inr (), None,
      \<lparr>installed = InMemory,
       logged = [(Warn, ''Socket.IO: Running without cluster adapter'')]\<rparr>)"
  by (simp add: setupRedisAdapter_def no_redis_def redis_refused_def new_server_def
        redis_clients_def fallbackToLocalAdapter_def log_line_def install_def
        connect_chain_def promise_all_def on_connect_failed_def settle_def
        setup_adapter_def setupDevelopmentAdapter_def cluster_adapter_def)

end
